theory Spec2Isabelle
  imports Main
begin

section \<open>Values and exceptions of the cleaning script\<close>

text \<open>
  The script \<^verbatim>\<open>hyrox_data_cleaning.py\<close> works on the cells of a data frame read from a CSV
  file. A cell of a text column is either missing (the float NaN that the reader puts
  there) or a Python \<^verbatim>\<open>str\<close>. A \<^typ>\<open>char\<close> stands for one code point in the range
  U+0000 to U+00FF, so \<^const>\<open>length\<close> is Python's \<^verbatim>\<open>len\<close>. An exception that a function
  lets escape is the \<open>Inl\<close> of its result.
\<close>

datatype cell = NA | Text string

datatype error = ValueError | IndexError | UnboundLocalError | AttributeError | TypeError

definition isna :: "cell \<Rightarrow> bool" where
  "isna c = (case c of NA \<Rightarrow> True | Text s \<Rightarrow> False)"

text \<open>\<^verbatim>\<open>str(x)\<close>: a string is returned as it is, NaN prints as \<^verbatim>\<open>nan\<close>.\<close>

definition py_str :: "cell \<Rightarrow> string" where
  "py_str c = (case c of NA \<Rightarrow> ''nan'' | Text s \<Rightarrow> s)"

section \<open>The string operations the script calls\<close>

text \<open>\<^verbatim>\<open>s.startswith(p)\<close>.\<close>

fun startswith :: "string \<Rightarrow> string \<Rightarrow> bool" where
  "startswith s [] = True"
| "startswith [] (p # ps) = False"
| "startswith (c # cs) (p # ps) = (c = p \<and> startswith cs ps)"

text \<open>\<^verbatim>\<open>sub in s\<close>: the substring test.\<close>

fun py_in :: "string \<Rightarrow> string \<Rightarrow> bool" where
  "py_in sub [] = startswith [] sub"
| "py_in sub (c # cs) = (startswith (c # cs) sub \<or> py_in sub cs)"

text \<open>
  \<^verbatim>\<open>s.split(sep)\<close> for a non-empty separator: the pieces between the occurrences of
  \<^verbatim>\<open>sep\<close>, found from the left without overlap. The result is never empty
  (\<^verbatim>\<open>''.split(':')\<close> is \<^verbatim>\<open>['']\<close>). The script calls it with \<^verbatim>\<open>':'\<close> and \<^verbatim>\<open>' - '\<close> only.
\<close>

fun py_split :: "string \<Rightarrow> string \<Rightarrow> string list" where
  "py_split sep [] = ['''']"
| "py_split sep (c # cs) =
     (if startswith (c # cs) sep then [] # py_split sep (drop (length sep - 1) cs)
      else (case py_split sep cs of
              [] \<Rightarrow> [c # []]
            | p # ps \<Rightarrow> (c # p) # ps))"

text \<open>
  The code points below U+0100 for which \<^verbatim>\<open>str.isspace\<close> holds: tab, line feed, vertical
  tab, form feed, carriage return, the separators U+001C to U+001F, space, U+0085 and
  U+00A0. Whitespace \<^verbatim>\<open>split()\<close> cuts at these.
\<close>

definition py_isspace :: "char \<Rightarrow> bool" where
  "py_isspace c = (let n = (of_char c :: nat) in
     (9 \<le> n \<and> n \<le> 13) \<or> (28 \<le> n \<and> n \<le> 32) \<or> n = 133 \<or> n = 160)"

text \<open>
  \<^verbatim>\<open>s.split(maxsplit=k)\<close> without a separator. Runs of whitespace separate the tokens and
  leading whitespace is skipped; once \<^verbatim>\<open>k\<close> cuts are made, the rest of the string after
  its leading whitespace is one last token, trailing whitespace included, unless nothing
  is left. \<^verbatim>\<open>s.split()\<close> has no limit on the cuts.
\<close>

fun split_ws :: "nat option \<Rightarrow> string \<Rightarrow> string \<Rightarrow> string list" where
  "split_ws k tok [] = (if tok = [] then [] else [rev tok])"
| "split_ws k tok (c # cs) =
     (if tok = [] then
        (if py_isspace c then split_ws k [] cs
         else if k = Some 0 then [c # cs]
         else split_ws k [c] cs)
      else
        (if py_isspace c then rev tok # split_ws (map_option (\<lambda>n. n - 1) k) [] cs
         else split_ws k (c # tok) cs))"

definition py_split_ws :: "string \<Rightarrow> string list" where
  "py_split_ws s = split_ws None [] s"

definition py_split_max :: "nat \<Rightarrow> string \<Rightarrow> string list" where
  "py_split_max k s = split_ws (Some k) [] s"

text \<open>The decimal digits \<^verbatim>\<open>0\<close> to \<^verbatim>\<open>9\<close>, the only code points below U+0100 that the
  regular expression \<^verbatim>\<open>\d\<close> matches and that \<^verbatim>\<open>int\<close> reads as digits.\<close>

definition is_decimal :: "char \<Rightarrow> bool" where
  "is_decimal c = (let n = (of_char c :: nat) in 48 \<le> n \<and> n \<le> 57)"

definition digit_value :: "char \<Rightarrow> int" where
  "digit_value c = int (of_char c :: nat) - 48"

text \<open>
  \<^verbatim>\<open>str.isdigit\<close> on one code point: the decimal digits and, below U+0100, the superscripts
  U+00B2, U+00B3 and U+00B9.
\<close>

definition isdigit_char :: "char \<Rightarrow> bool" where
  "isdigit_char c = (let n = (of_char c :: nat) in
     is_decimal c \<or> n = 178 \<or> n = 179 \<or> n = 185)"

definition py_isdigit :: "string \<Rightarrow> bool" where
  "py_isdigit s = (s \<noteq> [] \<and> list_all isdigit_char s)"

subsection \<open>\<^verbatim>\<open>int(s)\<close> on a string\<close>

text \<open>
  \<^verbatim>\<open>int\<close> skips whitespace at both ends (tab to carriage return, space, U+0085, U+00A0;
  not the separators U+001C to U+001F), reads one optional sign and then decimal digits,
  where a single underscore may stand between two digits. Anything else raises
  \<^verbatim>\<open>ValueError\<close>, and so does a string with more digits than the interpreter's limit,
  4300 by default, which the script does not change. Leading zeros count as digits,
  underscores, sign and whitespace do not.
\<close>

definition int_space :: "char \<Rightarrow> bool" where
  "int_space c = (let n = (of_char c :: nat) in
     (9 \<le> n \<and> n \<le> 13) \<or> n = 32 \<or> n = 133 \<or> n = 160)"

definition max_str_digits :: nat where
  "max_str_digits = 4300"

text \<open>
  The digits after the first one: the number of digits and the value read so far, and the
  text left over.
\<close>

fun scan_digits :: "nat \<Rightarrow> int \<Rightarrow> string \<Rightarrow> (nat \<times> int \<times> string) option" where
  "scan_digits n acc [] = Some (n, acc, [])"
| "scan_digits n acc [c] =
     (if is_decimal c then Some (n + 1, acc * 10 + digit_value c, [])
      else if c = CHR ''_'' then None
      else Some (n, acc, [c]))"
| "scan_digits n acc (c # d # ds) =
     (if is_decimal c then scan_digits (n + 1) (acc * 10 + digit_value c) (d # ds)
      else if c = CHR ''_'' then
        (if is_decimal d then scan_digits (n + 1) (acc * 10 + digit_value d) ds else None)
      else Some (n, acc, c # d # ds))"

text \<open>The sign that a leading \<^verbatim>\<open>-\<close> or \<^verbatim>\<open>+\<close> gives, and the text after it.\<close>

definition int_sign :: "string \<Rightarrow> int" where
  "int_sign t = (case t of [] \<Rightarrow> 1 | c # r \<Rightarrow> if c = CHR ''-'' then - 1 else 1)"

definition drop_sign :: "string \<Rightarrow> string" where
  "drop_sign t =
     (case t of [] \<Rightarrow> [] | c # r \<Rightarrow> if c = CHR ''-'' \<or> c = CHR ''+'' then r else t)"

text \<open>The digits: at least one, and the first character is a digit.\<close>

definition read_digits :: "string \<Rightarrow> (nat \<times> int \<times> string) option" where
  "read_digits u =
     (case u of
        [] \<Rightarrow> None
      | d # ds \<Rightarrow> if is_decimal d then scan_digits 1 (digit_value d) ds else None)"

definition py_int :: "string \<Rightarrow> error + int" where
  "py_int s =
     (let t = dropWhile int_space s in
      case read_digits (drop_sign t) of
        None \<Rightarrow> Inl ValueError
      | Some (n, v, rest) \<Rightarrow>
          if max_str_digits < n then Inl ValueError
          else if list_all int_space rest then Inr (int_sign t * v)
          else Inl ValueError)"

section \<open>Step 5: time strings to seconds\<close>

text \<open>The body of the \<^verbatim>\<open>try\<close> block of \<^verbatim>\<open>time_to_seconds\<close>; an \<^verbatim>\<open>int\<close> that fails raises.\<close>

definition time_to_seconds_try :: "cell \<Rightarrow> error + int" where
  "time_to_seconds_try time_str =
     (let parts = py_split '':'' (py_str time_str) in
      if length parts = 3 then
        (case py_int (parts ! 0) of
           Inl e \<Rightarrow> Inl e
         | Inr h \<Rightarrow>
             (case py_int (parts ! 1) of
                Inl e \<Rightarrow> Inl e
              | Inr m \<Rightarrow>
                  (case py_int (parts ! 2) of
                     Inl e \<Rightarrow> Inl e
                   | Inr s \<Rightarrow> Inr (h * 3600 + m * 60 + s))))
      else if length parts = 2 then
        (case py_int (parts ! 0) of
           Inl e \<Rightarrow> Inl e
         | Inr m \<Rightarrow>
             (case py_int (parts ! 1) of
                Inl e \<Rightarrow> Inl e
              | Inr s \<Rightarrow> Inr (m * 60 + s)))
      else Inr 0)"

text \<open>\<^verbatim>\<open>time_to_seconds\<close>: the guard, then the \<^verbatim>\<open>try\<close> block whose bare \<^verbatim>\<open>except\<close> returns 0.\<close>

definition time_to_seconds :: "cell \<Rightarrow> error + int" where
  "time_to_seconds time_str =
     (if isna time_str \<or> time_str = Text [] \<or> time_str = Text ''0:00:00'' then Inr 0
      else (case time_to_seconds_try time_str of Inl e \<Rightarrow> Inr 0 | Inr v \<Rightarrow> Inr v))"

text \<open>
  \<^verbatim>\<open>time_to_seconds\<close> with the test \<^verbatim>\<open>time_str == '0:00:00'\<close> taken out of the guard, for the
  comparison with the function as written.
\<close>

definition time_to_seconds_no_literal :: "cell \<Rightarrow> error + int" where
  "time_to_seconds_no_literal time_str =
     (if isna time_str \<or> time_str = Text [] then Inr 0
      else (case time_to_seconds_try time_str of Inl e \<Rightarrow> Inr 0 | Inr v \<Rightarrow> Inr v))"

section \<open>The rows of the data frame\<close>

text \<open>
  A row of the frame as it is read: one field for each column the script uses. The eight
  columns \<^verbatim>\<open>run_1\<close> to \<^verbatim>\<open>run_8\<close> are the field \<open>run\<close> at the indices 1 to 8, and the same
  for \<^verbatim>\<open>work_i\<close> and \<^verbatim>\<open>roxzone_i\<close>.
\<close>

record raw_row =
  event_id :: cell
  event_name :: cell
  gender :: cell
  nationality :: cell
  age_group :: cell
  division :: cell
  total_time :: cell
  work_time :: cell
  roxzone_time :: cell
  run_time :: cell
  run :: "nat \<Rightarrow> cell"
  work :: "nat \<Rightarrow> cell"
  roxzone :: "nat \<Rightarrow> cell"

text \<open>The columns that steps 3 and 4 add before \<^verbatim>\<open>extract_city\<close> runs.\<close>

record flagged_row = raw_row +
  is_championship :: bool
  event_year :: "int option"

text \<open>
  The columns that steps 4, 5 and 6 add: the city, one \<^verbatim>\<open>_seconds\<close> column for each time
  column (\<^verbatim>\<open>run_i_seconds\<close> is \<open>run_seconds\<close> at \<open>i\<close>), and the completion flag.
\<close>

record timed_row = flagged_row +
  event_city :: "string option"
  total_time_seconds :: int
  work_time_seconds :: int
  roxzone_time_seconds :: int
  run_time_seconds :: int
  run_seconds :: "nat \<Rightarrow> int"
  work_seconds :: "nat \<Rightarrow> int"
  roxzone_seconds :: "nat \<Rightarrow> int"

record valid_row = timed_row +
  is_valid :: bool

section \<open>Step 2: the corrections of event names\<close>

definition event_corrections :: "string \<rightharpoonup> string" where
  "event_corrections =
     [''JGDMS4JI5C9'' \<mapsto> ''S6 2023 Munich'',
      ''JGDMS4JI464'' \<mapsto> ''S5 2023 Munich'',
      ''2EFMS4JI2BE'' \<mapsto> ''S4 2022 Munich'',
      ''JGDMS4JI46D'' \<mapsto> ''S6 2023 Malmo'',
      ''JGDMS4JI468'' \<mapsto> ''S5 2023 Koln'']"

text \<open>
  Line 31 on one row: where \<^verbatim>\<open>event_id\<close> is one of the keys, \<^verbatim>\<open>event_name\<close> becomes the
  value the dictionary maps it to. A missing \<^verbatim>\<open>event_id\<close> is no key.
\<close>

definition fix_event_name :: "'a raw_row_scheme \<Rightarrow> 'a raw_row_scheme" where
  "fix_event_name row =
     (case event_id row of
        NA \<Rightarrow> row
      | Text i \<Rightarrow>
          (case event_corrections i of
             None \<Rightarrow> row
           | Some name \<Rightarrow> row\<lparr>event_name := Text name\<rparr>))"

section \<open>Step 3: the championship flag\<close>

text \<open>Lower case of the letters \<^verbatim>\<open>A\<close> to \<^verbatim>\<open>Z\<close>; every other code point is kept.\<close>

definition ascii_lower :: "char \<Rightarrow> char" where
  "ascii_lower c =
     (case map_of (zip ''ABCDEFGHIJKLMNOPQRSTUVWXYZ'' ''abcdefghijklmnopqrstuvwxyz'') c of
        None \<Rightarrow> c
      | Some l \<Rightarrow> l)"

text \<open>
  \<^verbatim>\<open>str.contains('Championship', case=False, na=False)\<close>: a search that ignores case; a
  missing name gives \<^verbatim>\<open>False\<close>.
\<close>

definition contains_championship :: "cell \<Rightarrow> bool" where
  "contains_championship name =
     (case name of
        NA \<Rightarrow> False
      | Text s \<Rightarrow> py_in (map ascii_lower ''Championship'') (map ascii_lower s))"

section \<open>Step 4: year and city\<close>

text \<open>
  \<^verbatim>\<open>str.extract(r'(\d{4})')\<close>: the leftmost four consecutive decimal digits of the name,
  nothing when there are none or the name is missing.
\<close>

text \<open>The pattern \<^verbatim>\<open>\d{4}\<close> matches in \<open>s\<close> at the offset \<open>i\<close>.\<close>

definition four_digits_at :: "string \<Rightarrow> nat \<Rightarrow> bool" where
  "four_digits_at s i = (i + 4 \<le> length s \<and> list_all is_decimal (take 4 (drop i s)))"

fun first_four_digits :: "string \<Rightarrow> string option" where
  "first_four_digits [] = None"
| "first_four_digits (c # cs) =
     (if 4 \<le> length (c # cs) \<and> list_all is_decimal (take 4 (c # cs))
      then Some (take 4 (c # cs))
      else first_four_digits cs)"

definition decimal_value :: "string \<Rightarrow> int" where
  "decimal_value ds = foldl (\<lambda>acc c. acc * 10 + digit_value c) 0 ds"

text \<open>The column \<^verbatim>\<open>event_year\<close> after \<^verbatim>\<open>astype('Int64')\<close>: the digits as an integer.\<close>

definition extract_year :: "cell \<Rightarrow> int option" where
  "extract_year name =
     (case name of
        NA \<Rightarrow> None
      | Text s \<Rightarrow> map_option decimal_value (first_four_digits s))"

text \<open>\<^verbatim>\<open>xs[-1]\<close> raises \<^verbatim>\<open>IndexError\<close> on an empty list.\<close>

definition py_last :: "'a list \<Rightarrow> error + 'a" where
  "py_last xs = (if xs = [] then Inl IndexError else Inr (last xs))"

text \<open>
  The \<^verbatim>\<open>for\<close> loop of the last championship branch. It stops at the first token of four
  digits, where it binds \<^verbatim>\<open>city\<close> to the next token, or to \<^verbatim>\<open>None\<close> when there is no next
  token. The outer \<open>None\<close> says the loop ended and never bound \<^verbatim>\<open>city\<close>.
\<close>

fun city_after_year :: "string list \<Rightarrow> string option option" where
  "city_after_year [] = None"
| "city_after_year (part # rest) =
     (if py_isdigit part \<and> length part = 4
      then Some (case rest of [] \<Rightarrow> None | nxt # _ \<Rightarrow> Some nxt)
      else city_after_year rest)"

text \<open>
  \<^verbatim>\<open>extract_city\<close>. A name that is missing is a float: \<^verbatim>\<open>in\<close> raises \<^verbatim>\<open>TypeError\<close> on it and
  \<^verbatim>\<open>split\<close> raises \<^verbatim>\<open>AttributeError\<close>. \<^verbatim>\<open>return city\<close> raises \<^verbatim>\<open>UnboundLocalError\<close> where
  no branch has bound \<^verbatim>\<open>city\<close>.
\<close>

definition extract_city :: "'a flagged_row_scheme \<Rightarrow> error + string option" where
  "extract_city row =
     (case event_name row of
        NA \<Rightarrow> if is_championship row then Inl TypeError else Inl AttributeError
      | Text name \<Rightarrow>
          if is_championship row then
            if py_in '' - '' name then
              (let city = py_split '' - '' name ! 0 in
               case py_last (py_split_max 2 city) of
                 Inl e \<Rightarrow> Inl e
               | Inr c \<Rightarrow> Inr (Some c))
            else if py_in ''Championships'' name
                    \<and> py_last (py_split_ws name) \<noteq> Inr ''Championships'' then
              (case py_last (py_split_ws name) of
                 Inl e \<Rightarrow> Inl e
               | Inr c \<Rightarrow> Inr (Some c))
            else
              (case city_after_year (py_split_ws name) of
                 None \<Rightarrow> Inl UnboundLocalError
               | Some city \<Rightarrow> Inr city)
          else
            (let parts = py_split_max 2 name in
             Inr (if 2 < length parts then Some (parts ! 2) else None)))"

section \<open>Step 6: completion\<close>

text \<open>The loop of \<^verbatim>\<open>check_valid_completion\<close> over the indices still to visit.\<close>

fun completion_loop :: "'a timed_row_scheme \<Rightarrow> nat list \<Rightarrow> bool" where
  "completion_loop row [] = True"
| "completion_loop row (i # rest) =
     (if run_seconds row i \<le> 0 \<or> work_seconds row i \<le> 0 then False
      else completion_loop row rest)"

definition check_valid_completion :: "'a timed_row_scheme \<Rightarrow> bool" where
  "check_valid_completion row = completion_loop row [1..<9]"

section \<open>Step 7: missing values\<close>

text \<open>\<^verbatim>\<open>fillna\<close> on the columns \<^verbatim>\<open>nationality\<close> and \<^verbatim>\<open>age_group\<close>.\<close>

definition fillna :: "string \<Rightarrow> cell \<Rightarrow> cell" where
  "fillna v c = (if isna c then Text v else c)"

definition fill_missing :: "'a raw_row_scheme \<Rightarrow> 'a raw_row_scheme" where
  "fill_missing row =
     row\<lparr>nationality := fillna ''Unknown'' (nationality row),
         age_group := fillna ''Not specified'' (age_group row)\<rparr>"

section \<open>Step 8: the document of a row\<close>

text \<open>
  The Python objects a document is made of: \<^verbatim>\<open>None\<close>, booleans, integers, strings, the float
  NaN of a missing cell, lists, and dictionaries with string keys in insertion order.
\<close>

datatype py =
    PyNone
  | PyBool bool
  | PyInt int
  | PyStr string
  | PyNaN
  | PyList "py list"
  | PyDict "(string \<times> py) list"

text \<open>The object that \<^verbatim>\<open>row[column]\<close> is for a text column.\<close>

definition of_cell :: "cell \<Rightarrow> py" where
  "of_cell c = (case c of NA \<Rightarrow> PyNaN | Text s \<Rightarrow> PyStr s)"

text \<open>\<^verbatim>\<open>d[key]\<close> on a dictionary; nothing for a missing key or another object.\<close>

fun py_get :: "py \<Rightarrow> string \<Rightarrow> py option" where
  "py_get (PyDict kvs) key = map_of kvs key"
| "py_get other key = None"

text \<open>The dictionary \<^verbatim>\<open>split\<close> that the loop of \<^verbatim>\<open>create_mongo_document\<close> builds for \<open>i\<close>.\<close>

definition split_dict :: "'a valid_row_scheme \<Rightarrow> nat \<Rightarrow> py" where
  "split_dict row i =
     PyDict
       [(''split_number'', PyInt (int i)),
        (''run_time'', of_cell (run row i)),
        (''run_seconds'', PyInt (run_seconds row i)),
        (''work_time'', of_cell (work row i)),
        (''work_seconds'', PyInt (work_seconds row i)),
        (''roxzone_time'', of_cell (roxzone row i)),
        (''roxzone_seconds'', PyInt (roxzone_seconds row i))]"

definition create_mongo_document :: "'a valid_row_scheme \<Rightarrow> py" where
  "create_mongo_document row =
     (let splits = foldl (\<lambda>splits i. splits @ [split_dict row i]) [] [1..<9] in
      PyDict
        [(''event'',
          PyDict
            [(''event_id'', of_cell (event_id row)),
             (''event_name'', of_cell (event_name row)),
             (''event_year'', (case event_year row of None \<Rightarrow> PyNone | Some y \<Rightarrow> PyInt y)),
             (''event_city'', (case event_city row of None \<Rightarrow> PyNone | Some c \<Rightarrow> PyStr c)),
             (''is_championship'', PyBool (is_championship row))]),
         (''athlete'',
          PyDict
            [(''gender'', of_cell (gender row)),
             (''nationality'', of_cell (nationality row)),
             (''age_group'', of_cell (age_group row)),
             (''division'', of_cell (division row))]),
         (''performance'',
          PyDict
            [(''total_time'', of_cell (total_time row)),
             (''total_seconds'', PyInt (total_time_seconds row)),
             (''work_time'', of_cell (work_time row)),
             (''work_seconds'', PyInt (work_time_seconds row)),
             (''roxzone_time'', of_cell (roxzone_time row)),
             (''roxzone_seconds'', PyInt (roxzone_time_seconds row)),
             (''run_time'', of_cell (run_time row)),
             (''run_seconds'', PyInt (run_time_seconds row)),
             (''is_valid'', PyBool (is_valid row))]),
         (''splits'', PyList splits)])"

section \<open>Rows for the examples\<close>

text \<open>
  A row of the frame after step 4 whose only filled cell is the event name; the flag and
  the year are what steps 3 and 4 compute from the name.
\<close>

definition named_row :: "string \<Rightarrow> flagged_row" where
  "named_row name =
     \<lparr>event_id = NA, event_name = Text name, gender = NA, nationality = NA,
      age_group = NA, division = NA, total_time = NA, work_time = NA,
      roxzone_time = NA, run_time = NA,
      run = (\<lambda>i. NA), work = (\<lambda>i. NA), roxzone = (\<lambda>i. NA),
      is_championship = contains_championship (Text name),
      event_year = extract_year (Text name)\<rparr>"

text \<open>A row after step 5 with the given seconds in its split columns, all else empty.\<close>

definition seconds_row :: "(nat \<Rightarrow> int) \<Rightarrow> (nat \<Rightarrow> int) \<Rightarrow> (nat \<Rightarrow> int) \<Rightarrow> timed_row" where
  "seconds_row rs ws zs =
     \<lparr>event_id = NA, event_name = NA, gender = NA, nationality = NA,
      age_group = NA, division = NA, total_time = NA, work_time = NA,
      roxzone_time = NA, run_time = NA,
      run = (\<lambda>i. NA), work = (\<lambda>i. NA), roxzone = (\<lambda>i. NA),
      is_championship = False, event_year = None,
      event_city = None, total_time_seconds = 0, work_time_seconds = 0,
      roxzone_time_seconds = 0, run_time_seconds = 0,
      run_seconds = rs, work_seconds = ws, roxzone_seconds = zs\<rparr>"

text \<open>A row as it is read, with the given event id and name, all else empty.\<close>

definition event_row :: "cell \<Rightarrow> cell \<Rightarrow> raw_row" where
  "event_row i name =
     \<lparr>event_id = i, event_name = name, gender = NA, nationality = NA,
      age_group = NA, division = NA, total_time = NA, work_time = NA,
      roxzone_time = NA, run_time = NA,
      run = (\<lambda>i. NA), work = (\<lambda>i. NA), roxzone = (\<lambda>i. NA)\<rparr>"

section \<open>Facts about the string operations\<close>

lemmas int_eval =
  py_int_def int_sign_def drop_sign_def read_digits_def is_decimal_def digit_value_def
  int_space_def max_str_digits_def

lemma py_split_colon_plain: "CHR '':'' \<notin> set a \<Longrightarrow> py_split '':'' a = [a]"
  by (induction a) auto

lemma py_split_colon_app:
  "CHR '':'' \<notin> set a \<Longrightarrow> py_split '':'' (a @ CHR '':'' # r) = a # py_split '':'' r"
  by (induction a) auto

lemma scan_digits_chars:
  "scan_digits n acc ds = Some (k, v, rest) \<Longrightarrow> c \<in> set ds \<Longrightarrow>
   is_decimal c \<or> c = CHR ''_'' \<or> c \<in> set rest"
  by (induction n acc ds rule: scan_digits.induct) (auto split: if_splits)

text \<open>On digits alone the scan counts every one of them.\<close>

lemma scan_digits_count:
  "list_all is_decimal ds \<Longrightarrow> \<exists>v. scan_digits n acc ds = Some (n + length ds, v, [])"
  by (induction n acc ds rule: scan_digits.induct) auto

lemma set_dropWhile_cases: "c \<in> set s \<Longrightarrow> P c \<or> c \<in> set (dropWhile P s)"
  by (induction s) auto

lemma read_digits_chars:
  "read_digits u = Some (k, v, rest) \<Longrightarrow> c \<in> set u \<Longrightarrow>
   is_decimal c \<or> c = CHR ''_'' \<or> c \<in> set rest"
  by (cases u) (auto simp: read_digits_def split: if_splits dest: scan_digits_chars)

lemma drop_sign_chars:
  "c \<in> set t \<Longrightarrow> c = CHR ''-'' \<or> c = CHR ''+'' \<or> c \<in> set (drop_sign t)"
  by (cases t) (auto simp: drop_sign_def)

text \<open>A string that \<^verbatim>\<open>int\<close> accepts is made of whitespace, digits, underscores and signs.\<close>

lemma py_int_chars:
  assumes "py_int s = Inr v" and "c \<in> set s"
  shows "int_space c \<or> is_decimal c \<or> c = CHR ''_'' \<or> c = CHR ''+'' \<or> c = CHR ''-''"
proof -
  let ?t = "dropWhile int_space s"
  from assms(1) obtain k w rest where rd: "read_digits (drop_sign ?t) = Some (k, w, rest)"
    and sp: "list_all int_space rest"
    by (auto simp: py_int_def Let_def split: option.splits if_splits)
  from assms(2) have "int_space c \<or> c \<in> set ?t" by (rule set_dropWhile_cases)
  moreover have "c = CHR ''-'' \<or> c = CHR ''+'' \<or> c \<in> set (drop_sign ?t)" if "c \<in> set ?t"
    using that by (rule drop_sign_chars)
  moreover have "is_decimal c \<or> c = CHR ''_'' \<or> int_space c" if "c \<in> set (drop_sign ?t)"
    using read_digits_chars [OF rd that] sp by (auto simp: list_all_iff)
  ultimately show ?thesis by blast
qed

lemma py_int_no_colon: "py_int s = Inr v \<Longrightarrow> CHR '':'' \<notin> set s"
  by (auto dest!: py_int_chars simp: int_space_def is_decimal_def)

lemma decimal_not_space: "is_decimal c \<Longrightarrow> \<not> int_space c"
  by (auto simp: is_decimal_def int_space_def Let_def)

lemma decimal_not_sign: "is_decimal c \<Longrightarrow> c \<noteq> CHR ''-'' \<and> c \<noteq> CHR ''+''"
  by (auto simp: is_decimal_def)

text \<open>More digits than the limit: \<^verbatim>\<open>int\<close> raises.\<close>

lemma py_int_over_limit:
  assumes "list_all is_decimal ds" and "max_str_digits < length ds"
  shows "py_int ds = Inl ValueError"
proof -
  from assms(2) obtain d r where ds: "ds = d # r" by (cases ds) auto
  with assms(1) have d: "is_decimal d" and r: "list_all is_decimal r" by auto
  from d have t: "dropWhile int_space ds = ds" by (simp add: ds decimal_not_space)
  from d have u: "drop_sign ds = ds" by (simp add: ds drop_sign_def decimal_not_sign)
  from scan_digits_count [OF r, of 1 "digit_value d"]
  obtain v where "scan_digits 1 (digit_value d) r = Some (1 + length r, v, [])" by blast
  with d have "read_digits ds = Some (length ds, v, [])" by (simp add: read_digits_def ds)
  with assms(2) show ?thesis by (simp add: py_int_def t u)
qed

section \<open>Facts about the time conversion\<close>

lemma time_to_seconds_unfold:
  "time_to_seconds (Text s) =
     (if s = [] \<or> s = ''0:00:00'' then Inr 0
      else (case time_to_seconds_try (Text s) of Inl e \<Rightarrow> Inr 0 | Inr v \<Rightarrow> Inr v))"
  by (simp add: time_to_seconds_def isna_def)

lemma try_three:
  "map py_int (py_split '':'' s) = [Inr h, Inr m, Inr sec] \<Longrightarrow>
   time_to_seconds_try (Text s) = Inr (h * 3600 + m * 60 + sec)"
  by (auto simp: time_to_seconds_try_def py_str_def Let_def map_eq_Cons_conv)

lemma try_two:
  "map py_int (py_split '':'' s) = [Inr m, Inr sec] \<Longrightarrow>
   time_to_seconds_try (Text s) = Inr (m * 60 + sec)"
  by (auto simp: time_to_seconds_try_def py_str_def Let_def map_eq_Cons_conv)

lemma try_other_length:
  "length (py_split '':'' s) \<noteq> 2 \<Longrightarrow> length (py_split '':'' s) \<noteq> 3 \<Longrightarrow>
   time_to_seconds_try (Text s) = Inr 0"
  by (simp add: time_to_seconds_try_def py_str_def Let_def)

lemma list_len3: "length xs = 3 \<Longrightarrow> \<exists>a b c. xs = [a, b, c]"
  by (cases xs; simp; cases "tl xs"; simp; cases "tl (tl xs)"; simp)

lemma list_len2: "length xs = 2 \<Longrightarrow> \<exists>a b. xs = [a, b]"
  by (cases xs; simp; cases "tl xs"; simp)

text \<open>With a part that \<^verbatim>\<open>int\<close> rejects, the \<^verbatim>\<open>try\<close> block raises or returns 0.\<close>

lemma try_bad_part:
  assumes "p \<in> set (py_split '':'' s)" and "py_int p = Inl e"
  shows "\<exists>e'. time_to_seconds_try (Text s) = Inl e' \<or> time_to_seconds_try (Text s) = Inr 0"
proof (cases "length (py_split '':'' s) = 3")
  case True
  then obtain a b c where "py_split '':'' s = [a, b, c]" using list_len3 by blast
  with assms show ?thesis
    by (auto simp: time_to_seconds_try_def py_str_def Let_def split: sum.splits)
next
  case False
  show ?thesis
  proof (cases "length (py_split '':'' s) = 2")
    case True
    then obtain a b where "py_split '':'' s = [a, b]" using list_len2 by blast
    with assms show ?thesis
      by (auto simp: time_to_seconds_try_def py_str_def Let_def split: sum.splits)
  next
    case F2: False
    with False show ?thesis by (simp add: try_other_length)
  qed
qed

lemma tts_three:
  assumes "map py_int (py_split '':'' s) = [Inr h, Inr m, Inr sec]"
  shows "time_to_seconds (Text s) = Inr (h * 3600 + m * 60 + sec)"
proof (cases "s = [] \<or> s = ''0:00:00''")
  case True
  with assms have "h = 0 \<and> m = 0 \<and> sec = 0" by (auto simp: int_eval)
  with True show ?thesis by (auto simp: time_to_seconds_unfold)
next
  case False
  with try_three[OF assms] show ?thesis by (simp add: time_to_seconds_unfold)
qed

lemma tts_two:
  assumes "map py_int (py_split '':'' s) = [Inr m, Inr sec]"
  shows "time_to_seconds (Text s) = Inr (m * 60 + sec)"
proof (cases "s = [] \<or> s = ''0:00:00''")
  case True
  with assms show ?thesis by auto
next
  case False
  with try_two[OF assms] show ?thesis by (simp add: time_to_seconds_unfold)
qed

lemma tts_other:
  assumes "(length (py_split '':'' s) \<noteq> 3 \<and> length (py_split '':'' s) \<noteq> 2)
         \<or> (\<exists>p \<in> set (py_split '':'' s). \<exists>e. py_int p = Inl e)"
  shows "time_to_seconds (Text s) = Inr 0"
proof -
  from assms have "\<exists>e'. time_to_seconds_try (Text s) = Inl e'
      \<or> time_to_seconds_try (Text s) = Inr 0"
    using try_other_length try_bad_part by blast
  then show ?thesis by (auto simp: time_to_seconds_unfold)
qed

lemma tts_over_limit: "time_to_seconds (Text (''0:'' @ replicate 4301 (CHR ''1''))) = Inr 0"
proof -
  let ?p = "replicate 4301 (CHR ''1'')"
  have "list_all is_decimal ?p" by (simp add: list_all_iff is_decimal_def)
  moreover have "max_str_digits < length ?p" by (simp add: max_str_digits_def)
  ultimately have bad: "py_int ?p = Inl ValueError" by (rule py_int_over_limit)
  have p: "CHR '':'' \<notin> set ?p" by simp
  have z: "CHR '':'' \<notin> set ''0''" by simp
  have "py_split '':'' (''0'' @ CHR '':'' # ?p) = ''0'' # py_split '':'' ?p"
    using z by (rule py_split_colon_app)
  also have "py_split '':'' ?p = [?p]" using p by (rule py_split_colon_plain)
  finally have "py_split '':'' (''0:'' @ ?p) = [''0'', ?p]" by simp
  with bad have "\<exists>p \<in> set (py_split '':'' (''0:'' @ ?p)). \<exists>e. py_int p = Inl e" by simp
  then show ?thesis by (intro tts_other disjI2)
qed

section \<open>The duration parser\<close>

text \<open>
  C3. \<^verbatim>\<open>time_to_seconds\<close> returns an integer on every input and never raises. When the
  string splits at the colons into exactly three parts that \<^verbatim>\<open>int\<close> reads as \<open>h\<close>, \<open>m\<close>
  and \<open>s\<close>, the result is \<open>h * 3600 + m * 60 + s\<close>; with exactly two parts it is
  \<open>m * 60 + s\<close>. Every other input gives 0: another number of parts, a part that \<^verbatim>\<open>int\<close>
  rejects, the empty string, the literal \<^verbatim>\<open>0:00:00\<close>, a missing value. In particular
  \<^verbatim>\<open>1:02:03\<close> gives 3723, \<^verbatim>\<open>45:10\<close> gives 2710 and \<^verbatim>\<open>not-a-time\<close> gives 0. A part
  with more digits than \<^verbatim>\<open>int\<close> accepts is a part that \<^verbatim>\<open>int\<close> rejects: \<^verbatim>\<open>0:\<close> followed by
  4301 digits gives 0.
\<close>

theorem time_to_seconds_spec:
  "(\<exists>n. time_to_seconds x = Inr n)
   \<and> (map py_int (py_split '':'' s3) = [Inr h, Inr m, Inr sec]
        \<longrightarrow> time_to_seconds (Text s3) = Inr (h * 3600 + m * 60 + sec))
   \<and> (map py_int (py_split '':'' s2) = [Inr m2, Inr sec2]
        \<longrightarrow> time_to_seconds (Text s2) = Inr (m2 * 60 + sec2))
   \<and> ((length (py_split '':'' s0) \<noteq> 3 \<and> length (py_split '':'' s0) \<noteq> 2)
         \<or> (\<exists>p \<in> set (py_split '':'' s0). \<exists>e. py_int p = Inl e)
        \<longrightarrow> time_to_seconds (Text s0) = Inr 0)
   \<and> time_to_seconds NA = Inr 0
   \<and> time_to_seconds (Text []) = Inr 0
   \<and> time_to_seconds (Text ''0:00:00'') = Inr 0
   \<and> time_to_seconds (Text ''1:02:03'') = Inr 3723
   \<and> time_to_seconds (Text ''45:10'') = Inr 2710
   \<and> time_to_seconds (Text ''not-a-time'') = Inr 0
   \<and> time_to_seconds (Text (''0:'' @ replicate 4301 (CHR ''1''))) = Inr 0"
proof -
  have total: "\<exists>n. time_to_seconds x = Inr n"
    by (simp add: time_to_seconds_def split: sum.splits)
  have na: "time_to_seconds NA = Inr 0" by (simp add: time_to_seconds_def isna_def)
  have e0: "time_to_seconds (Text []) = Inr 0" by (simp add: time_to_seconds_def)
  have z: "time_to_seconds (Text ''0:00:00'') = Inr 0" by (simp add: time_to_seconds_def)
  have e1: "time_to_seconds (Text ''1:02:03'') = Inr 3723"
    by (simp add: time_to_seconds_unfold time_to_seconds_try_def py_str_def int_eval)
  have e2: "time_to_seconds (Text ''45:10'') = Inr 2710"
    by (simp add: time_to_seconds_unfold time_to_seconds_try_def py_str_def int_eval)
  have e3: "time_to_seconds (Text ''not-a-time'') = Inr 0"
    by (simp add: time_to_seconds_unfold time_to_seconds_try_def py_str_def int_eval)
  have three: "map py_int (py_split '':'' s3) = [Inr h, Inr m, Inr sec]
      \<longrightarrow> time_to_seconds (Text s3) = Inr (h * 3600 + m * 60 + sec)"
    by (rule impI) (rule tts_three)
  have two: "map py_int (py_split '':'' s2) = [Inr m2, Inr sec2]
      \<longrightarrow> time_to_seconds (Text s2) = Inr (m2 * 60 + sec2)"
    by (rule impI) (rule tts_two)
  have other': "(length (py_split '':'' s0) \<noteq> 3 \<and> length (py_split '':'' s0) \<noteq> 2)
         \<or> (\<exists>p \<in> set (py_split '':'' s0). \<exists>e. py_int p = Inl e)
        \<longrightarrow> time_to_seconds (Text s0) = Inr 0"
    by (rule impI) (rule tts_other)
  from e3 tts_over_limit have e34: "time_to_seconds (Text ''not-a-time'') = Inr 0
      \<and> time_to_seconds (Text (''0:'' @ replicate 4301 (CHR ''1''))) = Inr 0" ..
  from e2 e34 have e23: "time_to_seconds (Text ''45:10'') = Inr 2710
      \<and> time_to_seconds (Text ''not-a-time'') = Inr 0
      \<and> time_to_seconds (Text (''0:'' @ replicate 4301 (CHR ''1''))) = Inr 0" ..
  from e1 e23 have e123: "time_to_seconds (Text ''1:02:03'') = Inr 3723
      \<and> time_to_seconds (Text ''45:10'') = Inr 2710
      \<and> time_to_seconds (Text ''not-a-time'') = Inr 0
      \<and> time_to_seconds (Text (''0:'' @ replicate 4301 (CHR ''1''))) = Inr 0" ..
  show ?thesis
    by (rule conjI [OF total conjI [OF three conjI [OF two conjI [OF other'
          conjI [OF na conjI [OF e0 conjI [OF z e123]]]]]]])
qed

theorem time_to_seconds_spec_witness:
  "map py_int (py_split '':'' ''2:10:05'') = [Inr 2, Inr 10, Inr 5]
   \<and> time_to_seconds (Text ''2:10:05'') = Inr 7805
   \<and> map py_int (py_split '':'' ''07:30'') = [Inr 7, Inr 30]
   \<and> time_to_seconds (Text ''07:30'') = Inr 450
   \<and> length (py_split '':'' ''1:2:3:4'') \<noteq> 3 \<and> length (py_split '':'' ''1:2:3:4'') \<noteq> 2
   \<and> time_to_seconds (Text ''1:2:3:4'') = Inr 0
   \<and> (\<exists>p \<in> set (py_split '':'' ''12:xx''). \<exists>e. py_int p = Inl e)
   \<and> time_to_seconds (Text ''12:xx'') = Inr 0"
proof -
  have h3: "map py_int (py_split '':'' ''2:10:05'') = [Inr 2, Inr 10, Inr 5]"
    by (simp add: int_eval)
  have h2: "map py_int (py_split '':'' ''07:30'') = [Inr 7, Inr 30]"
    by (simp add: int_eval)
  have h0: "length (py_split '':'' ''1:2:3:4'') \<noteq> 3 \<and> length (py_split '':'' ''1:2:3:4'') \<noteq> 2"
    by simp
  have hb: "\<exists>p \<in> set (py_split '':'' ''12:xx''). \<exists>e. py_int p = Inl e"
    by (simp add: int_eval)
  note spec = time_to_seconds_spec [of NA "''2:10:05''" 2 10 5 "''07:30''" 7 30]
  have r3: "time_to_seconds (Text ''2:10:05'') = Inr 7805"
    using spec [THEN conjunct2, THEN conjunct1, rule_format, OF h3] by simp
  have r2: "time_to_seconds (Text ''07:30'') = Inr 450"
    using spec [THEN conjunct2, THEN conjunct2, THEN conjunct1, rule_format, OF h2] by simp
  have r0: "time_to_seconds (Text ''1:2:3:4'') = Inr 0"
    using spec [of "''1:2:3:4''", THEN conjunct2, THEN conjunct2, THEN conjunct2,
      THEN conjunct1, rule_format, OF disjI1 [OF h0]] .
  have rb: "time_to_seconds (Text ''12:xx'') = Inr 0"
    using spec [of "''12:xx''", THEN conjunct2, THEN conjunct2, THEN conjunct2,
      THEN conjunct1, rule_format, OF disjI2 [OF hb]] .
  show ?thesis
    by (intro conjI) (fact h3 r3 h2 r2 h0 [THEN conjunct1] h0 [THEN conjunct2] r0 hb rb)+
qed

text \<open>
  C9. \<^verbatim>\<open>time_to_seconds\<close> checks neither range nor sign. For any two parts that \<^verbatim>\<open>int\<close>
  reads, joined by a colon, it returns \<open>m * 60 + s\<close>, and for any three it returns
  \<open>h * 3600 + m * 60 + s\<close>, whatever the values are: \<^verbatim>\<open>0:75:90\<close> gives 4590, and \<^verbatim>\<open>-1:30\<close>
  gives the negative value -30.
\<close>

theorem time_to_seconds_unvalidated:
  "(py_int a = Inr m \<and> py_int b = Inr sec
      \<longrightarrow> time_to_seconds (Text (a @ '':'' @ b)) = Inr (m * 60 + sec))
   \<and> (py_int a3 = Inr h3 \<and> py_int b3 = Inr m3 \<and> py_int c3 = Inr sec3
      \<longrightarrow> time_to_seconds (Text (a3 @ '':'' @ b3 @ '':'' @ c3))
          = Inr (h3 * 3600 + m3 * 60 + sec3))
   \<and> time_to_seconds (Text ''0:75:90'') = Inr 4590
   \<and> time_to_seconds (Text ''-1:30'') = Inr (- 30)"
proof -
  have pair: "time_to_seconds (Text (a @ '':'' @ b)) = Inr (m * 60 + sec)"
    if "py_int a = Inr m" "py_int b = Inr sec"
  proof -
    from that have "py_split '':'' (a @ '':'' @ b) = [a, b]"
      by (simp add: py_split_colon_app py_split_colon_plain py_int_no_colon)
    with that show ?thesis by (intro tts_two) simp
  qed
  have triple: "time_to_seconds (Text (a3 @ '':'' @ b3 @ '':'' @ c3))
      = Inr (h3 * 3600 + m3 * 60 + sec3)"
    if "py_int a3 = Inr h3" "py_int b3 = Inr m3" "py_int c3 = Inr sec3"
  proof -
    from that have "py_split '':'' (a3 @ '':'' @ b3 @ '':'' @ c3) = [a3, b3, c3]"
      by (simp add: py_split_colon_app py_split_colon_plain py_int_no_colon)
    with that show ?thesis by (intro tts_three) simp
  qed
  have big: "time_to_seconds (Text ''0:75:90'') = Inr 4590"
    by (simp add: time_to_seconds_unfold time_to_seconds_try_def py_str_def int_eval)
  have neg: "time_to_seconds (Text ''-1:30'') = Inr (- 30)"
    by (simp add: time_to_seconds_unfold time_to_seconds_try_def py_str_def int_eval)
  from pair triple big neg show ?thesis by blast
qed

theorem time_to_seconds_unvalidated_witness:
  "py_int ''-1'' = Inr (- 1) \<and> py_int ''30'' = Inr 30
   \<and> time_to_seconds (Text (''-1'' @ '':'' @ ''30'')) = Inr (- 30)
   \<and> py_int ''1'' = Inr 1 \<and> py_int ''99'' = Inr 99 \<and> py_int ''61'' = Inr 61
   \<and> time_to_seconds (Text (''1'' @ '':'' @ ''99'' @ '':'' @ ''61'')) = Inr 9601"
proof -
  have a: "py_int ''-1'' = Inr (- 1) \<and> py_int ''30'' = Inr 30" by (simp add: int_eval)
  have b: "py_int ''1'' = Inr 1 \<and> py_int ''99'' = Inr 99 \<and> py_int ''61'' = Inr 61"
    by (simp add: int_eval)
  note spec = time_to_seconds_unvalidated
      [of "''-1''" "- 1" "''30''" 30 "''1''" 1 "''99''" 99 "''61''" 61]
  have r2: "time_to_seconds (Text (''-1'' @ '':'' @ ''30'')) = Inr (- 30)"
    using spec [THEN conjunct1, rule_format, OF a] by simp
  have r3: "time_to_seconds (Text (''1'' @ '':'' @ ''99'' @ '':'' @ ''61'')) = Inr 9601"
    using spec [THEN conjunct2, THEN conjunct1, rule_format, OF b] by simp
  from a r2 b r3 show ?thesis by simp
qed

text \<open>
  C10. The test for the literal \<^verbatim>\<open>0:00:00\<close> in the guard of \<^verbatim>\<open>time_to_seconds\<close> is redundant:
  the function without it returns the same result on every input, because \<^verbatim>\<open>0:00:00\<close>
  splits into three parts that \<^verbatim>\<open>int\<close> reads as 0, and the general branch adds them to 0.
\<close>

theorem zero_literal_test_redundant:
  "time_to_seconds_no_literal x = time_to_seconds x
   \<and> py_split '':'' ''0:00:00'' = [''0'', ''00'', ''00'']
   \<and> time_to_seconds_try (Text ''0:00:00'') = Inr 0"
proof -
  have parts: "py_split '':'' ''0:00:00'' = [''0'', ''00'', ''00'']" by simp
  have general: "time_to_seconds_try (Text ''0:00:00'') = Inr 0"
    by (simp add: time_to_seconds_try_def py_str_def int_eval)
  have "time_to_seconds_no_literal x = time_to_seconds x"
  proof (cases "x = Text ''0:00:00''")
    case True
    with general show ?thesis
      by (simp add: time_to_seconds_no_literal_def time_to_seconds_def isna_def)
  next
    case False
    then show ?thesis
      by (simp add: time_to_seconds_no_literal_def time_to_seconds_def)
  qed
  with parts general show ?thesis by blast
qed

section \<open>Completion\<close>

lemma completion_loop_iff:
  "completion_loop row xs = (\<forall>i\<in>set xs. 0 < run_seconds row i \<and> 0 < work_seconds row i)"
  by (induction xs) auto

lemma set_upt_1_9: "set [1..<9] = {1..8::nat}"
  by auto

text \<open>
  C4. \<^verbatim>\<open>check_valid_completion\<close> returns true exactly when the sixteen values
  \<^verbatim>\<open>run_i_seconds\<close> and \<^verbatim>\<open>work_i_seconds\<close>, for \<open>i\<close> from 1 to 8, are all strictly positive;
  a value that is 0 or less makes it false; and the roxzone seconds play no part in the
  result.
\<close>

theorem check_valid_completion_spec:
  "check_valid_completion row
     = (\<forall>i\<in>{1..8}. 0 < run_seconds row i \<and> 0 < work_seconds row i)
   \<and> ((\<exists>i\<in>{1..8}. run_seconds row i \<le> 0 \<or> work_seconds row i \<le> 0)
        \<longrightarrow> \<not> check_valid_completion row)
   \<and> check_valid_completion (row\<lparr>roxzone_seconds := z, roxzone_time_seconds := zt\<rparr>)
     = check_valid_completion row"
proof -
  have iff: "check_valid_completion r
     = (\<forall>i\<in>{1..8}. 0 < run_seconds r i \<and> 0 < work_seconds r i)" for r :: "'b timed_row_scheme"
    unfolding check_valid_completion_def completion_loop_iff set_upt_1_9 ..
  have early: "(\<exists>i\<in>{1..8}. run_seconds row i \<le> 0 \<or> work_seconds row i \<le> 0)
        \<longrightarrow> \<not> check_valid_completion row"
    unfolding iff by (auto simp: not_less)
  have indep: "check_valid_completion (row\<lparr>roxzone_seconds := z, roxzone_time_seconds := zt\<rparr>)
     = check_valid_completion row"
    unfolding iff by simp
  from iff [of row] early indep show ?thesis by (intro conjI)
qed

theorem check_valid_completion_spec_witness:
  "check_valid_completion (seconds_row (\<lambda>i. 300) (\<lambda>i. 240) (\<lambda>i. 0))
   \<and> (\<exists>i\<in>{1..8}. run_seconds (seconds_row (\<lambda>i. 300) (\<lambda>i. if i = 8 then 0 else 240) (\<lambda>i. 45)) i \<le> 0
        \<or> work_seconds (seconds_row (\<lambda>i. 300) (\<lambda>i. if i = 8 then 0 else 240) (\<lambda>i. 45)) i \<le> 0)
   \<and> \<not> check_valid_completion (seconds_row (\<lambda>i. 300) (\<lambda>i. if i = 8 then 0 else 240) (\<lambda>i. 45))"
proof -
  let ?a = "seconds_row (\<lambda>i. 300) (\<lambda>i. 240) (\<lambda>i. 0)"
  let ?b = "seconds_row (\<lambda>i. 300) (\<lambda>i. if i = 8 then 0 else 240) (\<lambda>i. 45)"
  have ha: "\<forall>i\<in>{1..8}. 0 < run_seconds ?a i \<and> 0 < work_seconds ?a i"
    by (simp add: seconds_row_def)
  have hb: "\<exists>i\<in>{1..8}. run_seconds ?b i \<le> 0 \<or> work_seconds ?b i \<le> 0"
    by (rule bexI [of _ 8]) (simp_all add: seconds_row_def)
  have ra: "check_valid_completion ?a"
    using check_valid_completion_spec [of ?a, THEN conjunct1] ha by simp
  have rb: "\<not> check_valid_completion ?b"
    using check_valid_completion_spec [of ?b, THEN conjunct2, THEN conjunct1, rule_format, OF hb] .
  from ra hb rb show ?thesis by (intro conjI)
qed

section \<open>The document\<close>

lemma foldl_snoc_map: "foldl (\<lambda>acc i. acc @ [f i]) acc xs = acc @ map f xs"
  by (induction xs arbitrary: acc) auto

lemma upt_1_9: "[1..<9] = [1, 2, 3, 4, 5, 6, 7, 8::nat]"
  by code_simp

text \<open>
  C6. For every row, the document that \<^verbatim>\<open>create_mongo_document\<close> builds has under
  \<^verbatim>\<open>splits\<close> a list of exactly eight entries, whose \<^verbatim>\<open>split_number\<close> values are 1, 2, ..., 8
  in this order.
\<close>

theorem create_mongo_document_splits:
  "\<exists>splits. py_get (create_mongo_document row) ''splits'' = Some (PyList splits)
     \<and> length splits = 8
     \<and> map (\<lambda>s. py_get s ''split_number'') splits
         = map (\<lambda>n. Some (PyInt n)) [1, 2, 3, 4, 5, 6, 7, 8]"
proof -
  let ?splits = "map (split_dict row) [1, 2, 3, 4, 5, 6, 7, 8]"
  have "py_get (create_mongo_document row) ''splits'' = Some (PyList ?splits)"
    unfolding create_mongo_document_def Let_def foldl_snoc_map upt_1_9 by simp
  moreover have "length ?splits = 8" by simp
  moreover have "map (\<lambda>s. py_get s ''split_number'') ?splits
         = map (\<lambda>n. Some (PyInt n)) [1, 2, 3, 4, 5, 6, 7, 8]"
    by (simp add: split_dict_def)
  ultimately show ?thesis by blast
qed

section \<open>The corrections of event names\<close>

lemma event_corrections_dom:
  "dom event_corrections
     = {''JGDMS4JI5C9'', ''JGDMS4JI464'', ''2EFMS4JI2BE'', ''JGDMS4JI46D'', ''JGDMS4JI468''}"
  unfolding event_corrections_def by auto

lemma fix_event_name_id [simp]: "event_id (fix_event_name row) = event_id row"
  by (simp add: fix_event_name_def split: cell.splits option.splits)

text \<open>
  C8. The repair of line 31 replaces \<^verbatim>\<open>event_name\<close> by the mapped name exactly when the
  \<^verbatim>\<open>event_id\<close> of the row is a key of \<^verbatim>\<open>event_corrections\<close>, and leaves the row as it is
  otherwise. It is idempotent: repairing a repaired row changes nothing.
\<close>

theorem fix_event_name_spec:
  "(event_id row = Text i \<and> i \<in> dom event_corrections
      \<longrightarrow> fix_event_name row = row\<lparr>event_name := Text (the (event_corrections i))\<rparr>)
   \<and> ((\<forall>k\<in>dom event_corrections. event_id row \<noteq> Text k) \<longrightarrow> fix_event_name row = row)
   \<and> fix_event_name (fix_event_name row) = fix_event_name row"
proof -
  have hit: "fix_event_name row = row\<lparr>event_name := Text (the (event_corrections i))\<rparr>"
    if "event_id row = Text i \<and> i \<in> dom event_corrections"
    using that by (auto simp: fix_event_name_def)
  have miss: "fix_event_name row = row" if "\<forall>k\<in>dom event_corrections. event_id row \<noteq> Text k"
    using that by (auto simp: fix_event_name_def split: cell.splits option.splits)
  have idem: "fix_event_name (fix_event_name row) = fix_event_name row"
  proof (cases "event_id row")
    case NA
    then show ?thesis by (simp add: fix_event_name_def)
  next
    case (Text k)
    then show ?thesis
      by (cases "event_corrections k") (simp_all add: fix_event_name_def)
  qed
  from hit miss idem show ?thesis by blast
qed

theorem fix_event_name_spec_witness:
  "fix_event_name (event_row (Text ''JGDMS4JI5C9'') (Text ''S6 2023 M?nchen''))
     = event_row (Text ''JGDMS4JI5C9'') (Text ''S6 2023 Munich'')
   \<and> fix_event_name (event_row (Text ''ABC'') (Text ''S5 2023 Wien''))
     = event_row (Text ''ABC'') (Text ''S5 2023 Wien'')
   \<and> fix_event_name (fix_event_name (event_row (Text ''JGDMS4JI5C9'') (Text ''S6 2023 M?nchen'')))
     = event_row (Text ''JGDMS4JI5C9'') (Text ''S6 2023 Munich'')"
proof -
  let ?r = "event_row (Text ''JGDMS4JI5C9'') (Text ''S6 2023 M?nchen'')"
  let ?q = "event_row (Text ''ABC'') (Text ''S5 2023 Wien'')"
  have h1: "event_id ?r = Text ''JGDMS4JI5C9'' \<and> ''JGDMS4JI5C9'' \<in> dom event_corrections"
    by (simp add: event_row_def event_corrections_def)
  have h2: "\<forall>k\<in>dom event_corrections. event_id ?q \<noteq> Text k"
    by (simp add: event_row_def event_corrections_dom)
  have v: "the (event_corrections ''JGDMS4JI5C9'') = ''S6 2023 Munich''"
    by (simp add: event_corrections_def)
  have r1: "fix_event_name ?r = event_row (Text ''JGDMS4JI5C9'') (Text ''S6 2023 Munich'')"
    using fix_event_name_spec [of ?r "''JGDMS4JI5C9''", THEN conjunct1, rule_format, OF h1]
    by (simp add: v event_row_def)
  have r2: "fix_event_name ?q = ?q"
    using fix_event_name_spec [of ?q, THEN conjunct2, THEN conjunct1, THEN mp, OF h2] .
  have r3: "fix_event_name (fix_event_name ?r) = event_row (Text ''JGDMS4JI5C9'') (Text ''S6 2023 Munich'')"
    using fix_event_name_spec [of ?r, THEN conjunct2, THEN conjunct2] r1 by simp
  from r1 r2 r3 show ?thesis by (intro conjI)
qed

section \<open>The city of an event\<close>

lemmas city_eval =
  named_row_def extract_city_def contains_championship_def ascii_lower_def extract_year_def
  py_split_ws_def py_split_max_def py_isspace_def py_last_def py_isdigit_def isdigit_char_def
  is_decimal_def

text \<open>
  C1. \<^verbatim>\<open>extract_city\<close> is claimed to return a value for every row. The row named
  \<^verbatim>\<open>World Championship\<close> is flagged as a championship; its name has no \<^verbatim>\<open> - \<close>, no
  \<^verbatim>\<open>Championships\<close> and no token of four digits, so the loop of the last branch ends
  without binding \<^verbatim>\<open>city\<close>, and \<^verbatim>\<open>return city\<close> raises \<^verbatim>\<open>UnboundLocalError\<close>.
\<close>

theorem extract_city_unbound:
  "is_championship (named_row ''World Championship'')
   \<and> \<not> py_in '' - '' ''World Championship''
   \<and> \<not> py_in ''Championships'' ''World Championship''
   \<and> py_split_ws ''World Championship'' = [''World'', ''Championship'']
   \<and> city_after_year [''World'', ''Championship''] = None
   \<and> extract_city (named_row ''World Championship'') = Inl UnboundLocalError"
  by (simp add: city_eval)

text \<open>
  C2, as stated: on \<^verbatim>\<open>2023 European Championship - Berlin\<close> the city would be \<^verbatim>\<open>Berlin\<close>.
  The function does not return it.
\<close>

theorem extract_city_berlin_counterexample:
  "extract_city (named_row ''2023 European Championship - Berlin'') \<noteq> Inr (Some ''Berlin'')"
  by (simp add: city_eval)

text \<open>
  C2, amended. On the championship name \<^verbatim>\<open>2023 European Championship - Berlin\<close> the city is
  \<^verbatim>\<open>Championship\<close>, the last of the at most three tokens of the text before \<^verbatim>\<open> - \<close>; on the
  championship name \<^verbatim>\<open>Hyrox Elite Championships Paris\<close> it is \<^verbatim>\<open>Paris\<close>; on the name
  \<^verbatim>\<open>S6 2023 Munich\<close>, which is no championship, it is \<^verbatim>\<open>Munich\<close>.
\<close>

theorem extract_city_examples:
  "is_championship (named_row ''2023 European Championship - Berlin'')
   \<and> extract_city (named_row ''2023 European Championship - Berlin'') = Inr (Some ''Championship'')
   \<and> is_championship (named_row ''Hyrox Elite Championships Paris'')
   \<and> extract_city (named_row ''Hyrox Elite Championships Paris'') = Inr (Some ''Paris'')
   \<and> \<not> is_championship (named_row ''S6 2023 Munich'')
   \<and> extract_city (named_row ''S6 2023 Munich'') = Inr (Some ''Munich'')"
  by (simp add: city_eval)

section \<open>The year of an event\<close>

lemma four_digits_at_Suc: "four_digits_at (c # cs) (Suc i) = four_digits_at cs i"
  by (simp add: four_digits_at_def add.commute)

lemma first_four_digits_Cons:
  "first_four_digits (c # cs)
     = (if four_digits_at (c # cs) 0 then Some (take 4 (drop 0 (c # cs))) else first_four_digits cs)"
  by (simp add: four_digits_at_def)

lemma first_four_digits_None:
  "first_four_digits s = None \<longleftrightarrow> \<not> (\<exists>i. four_digits_at s i)"
proof (induction s)
  case Nil
  then show ?case by (simp add: four_digits_at_def)
next
  case (Cons c cs)
  have shift: "(\<exists>i. four_digits_at (c # cs) i)
      \<longleftrightarrow> four_digits_at (c # cs) 0 \<or> (\<exists>i. four_digits_at cs i)"
  proof
    assume "\<exists>i. four_digits_at (c # cs) i"
    then obtain i where i: "four_digits_at (c # cs) i" by blast
    show "four_digits_at (c # cs) 0 \<or> (\<exists>i. four_digits_at cs i)"
    proof (cases i)
      case 0
      with i show ?thesis by blast
    next
      case (Suc j)
      with i have "four_digits_at cs j" by (simp only: four_digits_at_Suc)
      then show ?thesis by blast
    qed
  next
    assume "four_digits_at (c # cs) 0 \<or> (\<exists>i. four_digits_at cs i)"
    then show "\<exists>i. four_digits_at (c # cs) i"
      using four_digits_at_Suc [of c cs] by blast
  qed
  show ?case
  proof (cases "four_digits_at (c # cs) 0")
    case True
    then have "first_four_digits (c # cs) \<noteq> None"
      by (simp only: first_four_digits_Cons if_True) simp
    with True show ?thesis by blast
  next
    case False
    then have "first_four_digits (c # cs) = first_four_digits cs"
      by (simp only: first_four_digits_Cons if_False)
    with Cons.IH shift False show ?thesis by simp
  qed
qed

lemma first_four_digits_Some:
  "first_four_digits s = Some d \<Longrightarrow>
   \<exists>i. four_digits_at s i \<and> d = take 4 (drop i s) \<and> (\<forall>j<i. \<not> four_digits_at s j)"
proof (induction s)
  case Nil
  then show ?case by simp
next
  case (Cons c cs)
  show ?case
  proof (cases "four_digits_at (c # cs) 0")
    case True
    with Cons.prems have "d = take 4 (drop 0 (c # cs))"
      by (simp only: first_four_digits_Cons if_True option.inject)
    with True have "four_digits_at (c # cs) 0 \<and> d = take 4 (drop 0 (c # cs))
        \<and> (\<forall>j<0. \<not> four_digits_at (c # cs) j)"
      by blast
    then show ?thesis by (rule exI)
  next
    case False
    with Cons.prems have "first_four_digits cs = Some d"
      by (simp only: first_four_digits_Cons if_False)
    from Cons.IH [OF this] obtain i where i: "four_digits_at cs i" "d = take 4 (drop i cs)"
      and least: "\<forall>j<i. \<not> four_digits_at cs j" by blast
    have "\<not> four_digits_at (c # cs) j" if "j < Suc i" for j
    proof (cases j)
      case 0
      with False show ?thesis by blast
    next
      case (Suc k)
      with that least have "\<not> four_digits_at cs k" by simp
      with Suc show ?thesis by (simp add: four_digits_at_Suc)
    qed
    with i have "four_digits_at (c # cs) (Suc i) \<and> d = take 4 (drop (Suc i) (c # cs))
        \<and> (\<forall>j<Suc i. \<not> four_digits_at (c # cs) j)"
      by (simp add: four_digits_at_Suc)
    then show ?thesis by (rule exI)
  qed
qed

text \<open>
  C7, as stated: the year would be the first whole token of exactly four digits, and null
  without such a token. The name \<^verbatim>\<open>S6 20231 Munich\<close> has the tokens \<^verbatim>\<open>S6\<close>, \<^verbatim>\<open>20231\<close> and
  \<^verbatim>\<open>Munich\<close>, none of four digits, and its year is 2023.
\<close>

theorem extract_year_token_counterexample:
  "py_split_ws ''S6 20231 Munich'' = [''S6'', ''20231'', ''Munich'']
   \<and> extract_year (Text ''S6 20231 Munich'') = Some 2023"
  by (simp add: py_split_ws_def py_isspace_def extract_year_def is_decimal_def
      decimal_value_def digit_value_def)

text \<open>
  C7, amended. The year of a row is the value of the leftmost four consecutive decimal
  digits of \<^verbatim>\<open>event_name\<close>, wherever they stand, token or not; it is null when the name has
  no four consecutive digits, or is missing.
\<close>

theorem extract_year_leftmost:
  "extract_year NA = None
   \<and> (extract_year (Text s) = None \<longleftrightarrow> \<not> (\<exists>i. four_digits_at s i))
   \<and> (extract_year (Text t) = Some y
        \<longrightarrow> (\<exists>i. four_digits_at t i \<and> y = decimal_value (take 4 (drop i t))
               \<and> (\<forall>j<i. \<not> four_digits_at t j)))"
proof -
  have na: "extract_year NA = None" by (simp add: extract_year_def)
  have none: "extract_year (Text s) = None \<longleftrightarrow> \<not> (\<exists>i. four_digits_at s i)"
    using first_four_digits_None [of s] by (simp add: extract_year_def)
  have some: "\<exists>i. four_digits_at t i \<and> y = decimal_value (take 4 (drop i t))
               \<and> (\<forall>j<i. \<not> four_digits_at t j)"
    if "extract_year (Text t) = Some y"
  proof -
    from that obtain d where d: "first_four_digits t = Some d" and y: "y = decimal_value d"
      by (auto simp: extract_year_def)
    from first_four_digits_Some [OF d] y show ?thesis by blast
  qed
  from na none some show ?thesis by blast
qed

theorem extract_year_leftmost_witness:
  "extract_year (Text ''S6 2023 Munich'') = Some 2023
   \<and> (\<exists>i. four_digits_at ''S6 2023 Munich'' i
         \<and> 2023 = decimal_value (take 4 (drop i ''S6 2023 Munich''))
         \<and> (\<forall>j<i. \<not> four_digits_at ''S6 2023 Munich'' j))"
proof -
  have h: "extract_year (Text ''S6 2023 Munich'') = Some 2023"
    by (simp add: extract_year_def is_decimal_def decimal_value_def digit_value_def)
  note spec = extract_year_leftmost [of "''S6 Munich''" "''S6 2023 Munich''" 2023]
  from h spec [THEN conjunct2, THEN conjunct2, THEN mp, OF h] show ?thesis
    by (intro conjI)
qed

end
